theory Spec2Isabelle
  imports Complex_Main
begin

section \<open>Support and resistance levels: the core of app.py\<close>

text \<open>
  The function \<^verbatim>\<open>calculate_support_resistance(df, rolling_wave_length, num_clusters)\<close>
  (app.py, lines 80 to 105) is embedded statement by statement. It is written against
  pandas and scikit-learn; each library call it makes is a definition below, named after
  the call and following the library's documented behaviour on the frames this function
  builds.

  Prices are 64 bit floats. The function only compares them, takes maxima and minima
  and tests them for equality, so a finite price is a value of a linearly ordered type
  \<open>'a\<close> (with the constants \<open>1\<close> and \<open>- 1\<close> the source writes into its frames), and the
  float NaN is \<open>None\<close>. Two library behaviours are not fixed by the source and are
  parameters of the model:
  \<^item> \<open>srt\<close>, the order in which \<^verbatim>\<open>sort_index()\<close> leaves rows that carry the same index
    label (its default sorting kind is not a stable one);
  \<^item> \<open>ward\<close>, the labels that the Ward agglomerative clustering gives to the points
    (floating point distances and the library's tie breaking decide them).
\<close>

subsection \<open>Exceptions\<close>

text \<open>
  The exceptions that the statements of the function can raise are \<open>ValueError\<close>
  (\<^verbatim>\<open>reset_index\<close> on a name clash, the clustering library's input validation, a column
  assignment of the wrong length), \<open>AttributeError\<close> (\<^verbatim>\<open>df.High\<close> on a frame with no
  such column) and \<open>DataError\<close> (a rolling aggregate of a non-numeric column).
  \<open>InsufficientHistory\<close> and \<open>InvalidParameter\<close> are the error kinds that the design
  document names for the core; no statement of the source raises them.
\<close>

datatype error =
  ValueError | AttributeError | DataError | InsufficientHistory | InvalidParameter

definition and_then :: "error + 'x \<Rightarrow> ('x \<Rightarrow> error + 'y) \<Rightarrow> error + 'y" where
  "and_then r f = (case r of Inl e \<Rightarrow> Inl e | Inr v \<Rightarrow> f v)"

subsection \<open>Data frames\<close>

text \<open>
  A column holds floats (with NaN), integers or objects (strings). The index of a frame
  is either the default \<^verbatim>\<open>RangeIndex\<close> \<open>0, ..., n - 1\<close> or a list of string labels
  with an optional name: line 58 of the script turns the dates of the downloaded frame
  into strings, and the provider names that index \<^verbatim>\<open>Date\<close>. Columns are kept in order,
  as an association list.
\<close>

datatype 'a column = Float64 "'a option list" | Int64 "int list" | Object "string list"

datatype pd_index = RangeIndex nat | Index "string option" "string list"

record 'a DataFrame =
  index :: pd_index
  columns :: "(string \<times> 'a column) list"

fun index_len :: "pd_index \<Rightarrow> nat" where
  "index_len (RangeIndex n) = n"
| "index_len (Index nm ls) = length ls"

fun index_name :: "pd_index \<Rightarrow> string option" where
  "index_name (RangeIndex n) = None"
| "index_name (Index nm ls) = nm"

fun index_values :: "pd_index \<Rightarrow> 'a column" where
  "index_values (RangeIndex n) = Int64 (map int [0..<n])"
| "index_values (Index nm ls) = Object ls"

text \<open>
  \<^verbatim>\<open>df.reset_index(inplace=True)\<close> (line 82): the index becomes the first column, under
  the name of the index (\<^verbatim>\<open>index\<close> for an unnamed one, \<^verbatim>\<open>level_0\<close> when a column
  \<^verbatim>\<open>index\<close> exists already), and the frame gets the default index. Inserting a column
  whose name is taken raises ValueError and leaves the frame as it was.
\<close>

definition reset_index :: "'a DataFrame \<Rightarrow> error + 'a DataFrame" where
  "reset_index df =
     (let names = map fst (columns df);
          name = (case index_name (index df) of
                    Some nm \<Rightarrow> nm
                  | None \<Rightarrow> if ''index'' \<in> set names then ''level_0'' else ''index'')
      in if name \<in> set names then Inl ValueError
         else Inr \<lparr>index = RangeIndex (index_len (index df)),
                   columns = (name, index_values (index df)) # columns df\<rparr>)"

text \<open>\<^verbatim>\<open>df.High\<close>, \<^verbatim>\<open>df.Low\<close>: attribute access to a column.\<close>

definition getattr :: "'a DataFrame \<Rightarrow> string \<Rightarrow> error + 'a column" where
  "getattr df nm = (case map_of (columns df) nm of
                      None \<Rightarrow> Inl AttributeError
                    | Some c \<Rightarrow> Inr c)"

text \<open>
  The values a rolling aggregate works on: a float column as it is, an integer column
  converted to floats; an object column has no numeric values to aggregate.
\<close>

fun numeric_values :: "('a::linordered_idom) column \<Rightarrow> error + 'a option list" where
  "numeric_values (Float64 xs) = Inr xs"
| "numeric_values (Int64 is) = Inr (map (\<lambda>i. Some (of_int i)) is)"
| "numeric_values (Object ss) = Inl DataError"

subsection \<open>Rolling maxima and minima (lines 84 and 85)\<close>

text \<open>
  \<^verbatim>\<open>rolling(w).max()\<close>: position \<open>i\<close> aggregates the window of the \<open>w\<close> values that end
  at \<open>i\<close>. With the default \<^verbatim>\<open>min_periods\<close> (the window length) the result is NaN unless
  the window holds \<open>w\<close> observations that are not NaN, so it is NaN at the first \<open>w - 1\<close>
  positions; an empty window (\<open>w = 0\<close>) has no maximum and gives NaN as well.
\<close>

definition maximum :: "('a::linorder) list \<Rightarrow> 'a" where
  "maximum ys = fold max (tl ys) (hd ys)"

definition minimum :: "('a::linorder) list \<Rightarrow> 'a" where
  "minimum ys = fold min (tl ys) (hd ys)"

definition window :: "nat \<Rightarrow> 'x list \<Rightarrow> nat \<Rightarrow> 'x list" where
  "window w xs i = take w (drop (i + 1 - w) xs)"

definition rolling :: "('a list \<Rightarrow> 'a) \<Rightarrow> nat \<Rightarrow> 'a option list \<Rightarrow> 'a option list" where
  "rolling agg w xs =
     map (\<lambda>i. if i + 1 < w \<or> window w xs i = [] \<or> None \<in> set (window w xs i) then None
              else Some (agg (map the (window w xs i))))
         [0..<length xs]"

definition max_waves_temp :: "('a::linordered_idom) DataFrame \<Rightarrow> nat \<Rightarrow> error + 'a option list" where
  "max_waves_temp df w =
     and_then (getattr df ''High'') (\<lambda>c.
     and_then (numeric_values c) (\<lambda>hs. Inr (rolling maximum w hs)))"

definition min_waves_temp :: "('a::linordered_idom) DataFrame \<Rightarrow> nat \<Rightarrow> error + 'a option list" where
  "min_waves_temp df w =
     and_then (getattr df ''Low'') (\<lambda>c.
     and_then (numeric_values c) (\<lambda>ls. Inr (rolling minimum w ls)))"

subsection \<open>The wave frame (lines 87 to 93)\<close>

text \<open>
  A row of the frames \<^verbatim>\<open>max_waves\<close>, \<^verbatim>\<open>min_waves\<close> and \<^verbatim>\<open>waves\<close>: its index label
  (the position of the bar), the column \<^verbatim>\<open>waves\<close> and the column \<^verbatim>\<open>0\<close>, which holds
  \<open>1\<close> for a rolling maximum and \<open>- 1\<close> for a rolling minimum.
\<close>

type_synonym 'a wave_row = "nat \<times> 'a option \<times> 'a"

abbreviation label :: "nat \<times> 'v \<times> 'p \<Rightarrow> nat" where
  "label r \<equiv> fst r"

abbreviation waves :: "nat \<times> 'v \<times> 'p \<Rightarrow> 'v" where
  "waves r \<equiv> fst (snd r)"

abbreviation polarity :: "nat \<times> 'v \<times> 'p \<Rightarrow> 'p" where
  "polarity r \<equiv> snd (snd r)"

text \<open>
  Lines 87 and 88, \<^verbatim>\<open>pd.concat([series, pd.Series(np.zeros(n) + p)], axis=1)\<close>: both
  series carry the default index of the frame after line 82, so row \<open>i\<close> pairs the
  \<open>i\<close>-th rolling value with the constant \<open>p\<close>.
\<close>

definition with_polarity :: "'a \<Rightarrow> 'a option list \<Rightarrow> 'a wave_row list" where
  "with_polarity p ws = map (\<lambda>(i, v). (i, v, p)) (enumerate 0 ws)"

text \<open>
  Lines 89 and 90, \<^verbatim>\<open>drop_duplicates('waves', inplace=True)\<close>: a row is dropped when
  its \<^verbatim>\<open>waves\<close> value occurred in an earlier row of the frame (the first occurrence is
  kept; NaN counts as equal to NaN). \<open>seen\<close> holds the values met so far.
\<close>

fun drop_seen :: "'v list \<Rightarrow> (nat \<times> 'v \<times> 'p) list \<Rightarrow> (nat \<times> 'v \<times> 'p) list" where
  "drop_seen seen [] = []"
| "drop_seen seen (r # rs) =
     (if waves r \<in> set seen then drop_seen seen rs
      else r # drop_seen (waves r # seen) rs)"

definition drop_duplicates :: "(nat \<times> 'v \<times> 'p) list \<Rightarrow> (nat \<times> 'v \<times> 'p) list" where
  "drop_duplicates rows = drop_seen [] rows"

text \<open>
  Line 92, \<^verbatim>\<open>pd.concat([max_waves, min_waves]).sort_index()\<close>: the rows of the second
  frame follow those of the first, then the rows are sorted by index label. pandas
  returns the frame as it is when the labels are already in non-decreasing order, and
  otherwise sorts with the default kind, which does not promise an order among rows
  of the same label: that order is the parameter \<open>srt\<close>. \<open>stable_sort\<close> is the sort that
  keeps such rows in their order of arrival.
\<close>

definition sort_index ::
  "((nat \<times> 'v \<times> 'p) list \<Rightarrow> (nat \<times> 'v \<times> 'p) list) \<Rightarrow> (nat \<times> 'v \<times> 'p) list \<Rightarrow> (nat \<times> 'v \<times> 'p) list" where
  "sort_index srt rows = (if sorted (map label rows) then rows else srt rows)"

definition stable_sort :: "(nat \<times> 'v \<times> 'p) list \<Rightarrow> (nat \<times> 'v \<times> 'p) list" where
  "stable_sort rows = sort_key label rows"

definition rearranges :: "((nat \<times> 'v \<times> 'p) list \<Rightarrow> (nat \<times> 'v \<times> 'p) list) \<Rightarrow> bool" where
  "rearranges srt = (\<forall>rows. set (srt rows) = set rows \<and> length (srt rows) = length rows)"

text \<open>
  Line 93, first half, \<^verbatim>\<open>waves[waves[0] != waves[0].shift()]\<close>: \<^verbatim>\<open>shift\<close> moves the
  column one row down and puts NaN in the first row; a row is kept when its polarity
  differs from that of the row before it (the first row always is).
\<close>

definition shift :: "'p list \<Rightarrow> 'p option list" where
  "shift ps = (if ps = [] then [] else None # map Some (butlast ps))"

definition polarity_changed :: "(nat \<times> 'v \<times> 'p) list \<Rightarrow> (nat \<times> 'v \<times> 'p) list" where
  "polarity_changed rows =
     map fst (filter (\<lambda>(r, prev). Some (polarity r) \<noteq> prev)
                     (zip rows (shift (map polarity rows))))"

text \<open>Line 93, second half, \<^verbatim>\<open>dropna()\<close>: rows with a NaN are dropped.\<close>

definition dropna :: "'a wave_row list \<Rightarrow> (nat \<times> 'a \<times> 'a) list" where
  "dropna rows = List.map_filter (\<lambda>(i, v, p). map_option (\<lambda>x. (i, x, p)) v) rows"

definition wave_frame ::
  "('a wave_row list \<Rightarrow> 'a wave_row list) \<Rightarrow> ('a::linordered_idom) option list \<Rightarrow> 'a option list
     \<Rightarrow> (nat \<times> 'a \<times> 'a) list" where
  "wave_frame srt mx mn =
     (let max_waves = drop_duplicates (with_polarity 1 mx);
          min_waves = drop_duplicates (with_polarity (- 1) mn)
      in dropna (polarity_changed (sort_index srt (max_waves @ min_waves))))"

subsection \<open>Clustering and level selection (lines 95 to 105)\<close>

text \<open>
  \<^verbatim>\<open>AgglomerativeClustering(n_clusters=k, linkage='ward').fit_predict(x)\<close>: the library
  validates its input before it clusters. It raises ValueError for fewer than two
  samples, for \<open>k < 1\<close>, and when more clusters than samples are asked for. Otherwise it
  returns one label per sample; \<open>ward\<close> is that labelling.
\<close>

definition fit_predict ::
  "(('a \<times> 'a) list \<Rightarrow> nat \<Rightarrow> nat list) \<Rightarrow> ('a \<times> 'a) list \<Rightarrow> nat \<Rightarrow> error + nat list" where
  "fit_predict ward x k =
     (if length x < 2 \<or> k < 1 \<or> length x < k then Inl ValueError else Inr (ward x k))"

text \<open>
  \<^verbatim>\<open>waves.groupby('clusters')['waves'].idxmax()\<close>: for every cluster label that occurs,
  in ascending order of the labels, the index label of the first row of the group that
  holds the group's maximum.
\<close>

definition idxmax :: "(nat \<times> ('a::linorder) \<times> 'p) list \<Rightarrow> nat" where
  "idxmax g = label (hd (filter (\<lambda>r. waves r = maximum (map waves g)) g))"

definition group :: "((nat \<times> 'a \<times> 'p) \<times> nat) list \<Rightarrow> nat \<Rightarrow> (nat \<times> 'a \<times> 'p) list" where
  "group clustered c = map fst (filter (\<lambda>(r, c'). c' = c) clustered)"

definition groupby_idxmax :: "((nat \<times> ('a::linorder) \<times> 'p) \<times> nat) list \<Rightarrow> nat list" where
  "groupby_idxmax clustered =
     map (\<lambda>c. idxmax (group clustered c)) (sort (remdups (map snd clustered)))"

text \<open>
  \<^verbatim>\<open>waves.loc[labels]\<close>: for each requested label in turn, every row of the frame that
  carries that index label, in the order of the frame.
\<close>

definition loc :: "(nat \<times> 'v \<times> 'p) list \<Rightarrow> nat list \<Rightarrow> (nat \<times> 'v \<times> 'p) list" where
  "loc rows labels = concat (map (\<lambda>l. filter (\<lambda>r. label r = l) rows) labels)"

text \<open>\<^verbatim>\<open>Series.drop_duplicates(keep='first')\<close> on a series of values.\<close>

fun series_drop_seen :: "'v list \<Rightarrow> 'v list \<Rightarrow> 'v list" where
  "series_drop_seen seen [] = []"
| "series_drop_seen seen (v # vs) =
     (if v \<in> set seen then series_drop_seen seen vs
      else v # series_drop_seen (v # seen) vs)"

text \<open>
  Lines 95 to 105, apart from line 102. The points handed to the clustering are the
  wave values paired with the constant \<open>1\<close>. Line 100 assigns the labels as a column and
  raises ValueError when their number is not the number of rows.

  Line 103 is \<^verbatim>\<open>waves2.waves.drop_duplicates(keep='first', inplace=True)\<close>. The
  expression \<^verbatim>\<open>waves2.waves\<close> is a Series object of its own; dropping rows in place
  replaces the data of that object. A frame cannot hold a column shorter than its
  index, so pandas does not write the shortened series back into \<^verbatim>\<open>waves2\<close> (and
  when no row is dropped there is nothing to write). Line 105 reads the column
  \<^verbatim>\<open>waves\<close> from the frame \<^verbatim>\<open>waves2\<close> again, so it returns every row that line 101
  selected. The binding \<open>detached\<close> below is the shortened Series object, which nothing
  reads afterwards.
\<close>

definition select_levels ::
  "(('a \<times> 'a) list \<Rightarrow> nat \<Rightarrow> nat list) \<Rightarrow> (nat \<times> ('a::linordered_idom) \<times> 'a) list \<Rightarrow> nat
     \<Rightarrow> error + 'a list" where
  "select_levels ward wvs k =
     and_then (fit_predict ward (map (\<lambda>r. (waves r, 1)) wvs) k) (\<lambda>labels.
       if length labels \<noteq> length wvs then Inl ValueError
       else
         let clustered = zip wvs labels;
             waves2 = loc wvs (groupby_idxmax clustered);
             detached = series_drop_seen [] (map waves waves2)
         in Inr (map waves waves2))"

text \<open>
  Lines 84 to 93 on the frame as line 82 left it: the frame \<^verbatim>\<open>waves\<close> that is handed to
  the clustering, or the exception raised on the way.
\<close>

definition wave_series ::
  "('a wave_row list \<Rightarrow> 'a wave_row list) \<Rightarrow> ('a::linordered_idom) DataFrame \<Rightarrow> nat
     \<Rightarrow> error + (nat \<times> 'a \<times> 'a) list" where
  "wave_series srt df w =
     and_then (max_waves_temp df w) (\<lambda>mx.
     and_then (min_waves_temp df w) (\<lambda>mn.
       Inr (wave_frame srt mx mn)))"

text \<open>
  Lines 84 to 101, 103 and 105 on the frame as line 82 left it: the returned series of
  levels, or the exception raised.
\<close>

definition levels ::
  "('a wave_row list \<Rightarrow> 'a wave_row list) \<Rightarrow> (('a \<times> 'a) list \<Rightarrow> nat \<Rightarrow> nat list)
     \<Rightarrow> ('a::linordered_idom) DataFrame \<Rightarrow> nat \<Rightarrow> nat \<Rightarrow> error + 'a list" where
  "levels srt ward df w k =
     and_then (wave_series srt df w) (\<lambda>wvs. select_levels ward wvs k)"

text \<open>
  The whole function, with the caller's frame as explicit state: the result is the
  outcome of the call (the returned levels or the exception) and the frame the caller
  holds afterwards. Line 81 keeps the index, line 82 resets it in place, line 102 puts
  the kept index back (all later lines cannot raise). An exception raised between
  line 82 and line 102 leaves the frame as line 82 made it.
\<close>

definition calculate_support_resistance ::
  "('a wave_row list \<Rightarrow> 'a wave_row list) \<Rightarrow> (('a \<times> 'a) list \<Rightarrow> nat \<Rightarrow> nat list)
     \<Rightarrow> ('a::linordered_idom) DataFrame \<Rightarrow> nat \<Rightarrow> nat \<Rightarrow> (error + 'a list) \<times> 'a DataFrame" where
  "calculate_support_resistance srt ward df rolling_wave_length num_clusters =
     (let date = index df in
      case reset_index df of
        Inl e \<Rightarrow> (Inl e, df)
      | Inr df1 \<Rightarrow>
          (case levels srt ward df1 rolling_wave_length num_clusters of
             Inl e \<Rightarrow> (Inl e, df1)
           | Inr lv \<Rightarrow> (Inr lv, df1\<lparr>index := date\<rparr>)))"

subsection \<open>Notions used to state the properties\<close>

text \<open>
  The number of bars of a frame, and the frames pandas can build: every column is as
  long as the index.
\<close>

fun column_len :: "'a column \<Rightarrow> nat" where
  "column_len (Float64 xs) = length xs"
| "column_len (Int64 is) = length is"
| "column_len (Object ss) = length ss"

definition len :: "'a DataFrame \<Rightarrow> nat" where
  "len df = index_len (index df)"

definition well_formed :: "'a DataFrame \<Rightarrow> bool" where
  "well_formed df = list_all (\<lambda>(nm, c). column_len c = len df) (columns df)"

text \<open>A rolling series is non-decreasing when its values that are not NaN are.\<close>

definition non_decreasing :: "('a::linorder) option list \<Rightarrow> bool" where
  "non_decreasing ws = sorted (List.map_filter (\<lambda>v. v) ws)"

text \<open>
  The deduplication as the design document words it for lines 89 and 90 (it is not what
  \<^verbatim>\<open>drop_duplicates\<close> does): a row is dropped only when the row just before it holds
  the same value.
\<close>

fun drop_consecutive_duplicates :: "(nat \<times> 'v \<times> 'p) list \<Rightarrow> (nat \<times> 'v \<times> 'p) list" where
  "drop_consecutive_duplicates [] = []"
| "drop_consecutive_duplicates [r] = [r]"
| "drop_consecutive_duplicates (r # r' # rs) =
     (if waves r' = waves r then drop_consecutive_duplicates (r # rs)
      else r # drop_consecutive_duplicates (r' # rs))"

text \<open>
  The labelling of a cut into one cluster: with \<^verbatim>\<open>n_clusters=1\<close> every sample gets the
  label \<open>0\<close>, whatever the distances are.
\<close>

definition single_cluster :: "('a \<times> 'a) list \<Rightarrow> nat \<Rightarrow> nat list" where
  "single_cluster x k = replicate (length x) 0"

subsection \<open>Sample frames\<close>

text \<open>
  Frames as the script hands them to the function: five daily bars, the dates as
  strings in an index named \<^verbatim>\<open>Date\<close>, and the columns Open, High, Low, Close and
  Volume. \<open>flat_bars\<close> is a flat market at 100; \<open>band_bars\<close> moves between 9 and 10 on
  every day; \<open>trend_bars\<close> closes higher every day after a spike on the first day.
\<close>

definition dates :: "string list" where
  "dates = [''03-01-2022'', ''04-01-2022'', ''05-01-2022'', ''06-01-2022'', ''07-01-2022'']"

definition bars ::
  "real list \<Rightarrow> real list \<Rightarrow> real list \<Rightarrow> real list \<Rightarrow> int list \<Rightarrow> real DataFrame" where
  "bars os hs ls cs vs =
     \<lparr>index = Index (Some ''Date'') dates,
      columns = [(''Open'', Float64 (map Some os)), (''High'', Float64 (map Some hs)),
                 (''Low'', Float64 (map Some ls)), (''Close'', Float64 (map Some cs)),
                 (''Volume'', Int64 vs)]\<rparr>"

definition flat_bars :: "real DataFrame" where
  "flat_bars = bars [100, 100, 100, 100, 100] [100, 100, 100, 100, 100]
                    [100, 100, 100, 100, 100] [100, 100, 100, 100, 100] [7, 7, 7, 7, 7]"

definition band_bars :: "real DataFrame" where
  "band_bars = bars [9, 10, 9, 10, 9] [10, 10, 10, 10, 10]
                    [9, 9, 9, 9, 9] [10, 9, 10, 9, 10] [5, 6, 7, 8, 9]"

definition trend_bars :: "real DataFrame" where
  "trend_bars = bars [9, 10, 11, 12, 13] [15, 12, 13, 14, 15]
                     [9, 10, 11, 12, 13] [10, 11, 12, 13, 14] [5, 6, 7, 8, 9]"

definition rally_bars :: "real DataFrame" where
  "rally_bars = bars [10, 11, 12, 13, 14] [11, 12, 13, 14, 15]
                     [9, 10, 11, 12, 13] [10, 11, 12, 13, 14] [5, 6, 7, 8, 9]"


section \<open>Properties of the stages\<close>

subsection \<open>Which values the stages can produce\<close>

lemma and_then_Inr: "and_then r f = Inr y \<longleftrightarrow> (\<exists>v. r = Inr v \<and> f v = Inr y)"
  by (cases r) (simp_all add: and_then_def)


lemma fold_max_in: "fold max ys (a::'a::linorder) \<in> set (a # ys)"
  by (induction ys arbitrary: a) (auto simp: max_def)

lemma fold_min_in: "fold min ys (a::'a::linorder) \<in> set (a # ys)"
  by (induction ys arbitrary: a) (auto simp: min_def)

lemma maximum_in: "ys \<noteq> [] \<Longrightarrow> maximum ys \<in> set ys"
  using fold_max_in [of "tl ys" "hd ys"] by (cases ys) (simp_all add: maximum_def)

lemma minimum_in: "ys \<noteq> [] \<Longrightarrow> minimum ys \<in> set ys"
  using fold_min_in [of "tl ys" "hd ys"] by (cases ys) (simp_all add: minimum_def)

lemma set_window: "set (window w xs i) \<subseteq> set xs"
  unfolding window_def by (meson set_take_subset set_drop_subset subset_trans)

lemma agg_window_in:
  assumes "\<And>ys. ys \<noteq> [] \<Longrightarrow> agg ys \<in> set ys" and "win \<noteq> []" and "None \<notin> set win"
  shows "Some (agg (map the win)) \<in> set win"
proof -
  have "agg (map the win) \<in> set (map the win)" using assms(1) [of "map the win"] assms(2) by simp
  then obtain x where "x \<in> set win" "agg (map the win) = the x" by auto
  with assms(3) show ?thesis by (cases x) auto
qed

lemma rolling_values:
  assumes "\<And>ys. ys \<noteq> [] \<Longrightarrow> agg ys \<in> set ys" and "Some v \<in> set (rolling agg w xs)"
  shows "Some v \<in> set xs"
proof -
  from assms(2) obtain i where i: "window w xs i \<noteq> []" "None \<notin> set (window w xs i)"
    "v = agg (map the (window w xs i))"
    by (auto simp: rolling_def split: if_splits)
  then have "Some v \<in> set (window w xs i)" using agg_window_in [OF assms(1)] by blast
  then show ?thesis using set_window by fastforce
qed

lemma with_polarity_values: "r \<in> set (with_polarity p ws) \<Longrightarrow> waves r \<in> set ws"
  by (auto simp: with_polarity_def enumerate_eq_zip dest: set_zip_rightD)

lemma set_drop_seen: "set (drop_seen seen rs) \<subseteq> set rs"
  by (induction rs arbitrary: seen) auto

lemma set_drop_duplicates: "set (drop_duplicates rs) \<subseteq> set rs"
  by (simp add: drop_duplicates_def set_drop_seen)

lemma set_sort_index: "rearranges srt \<Longrightarrow> set (sort_index srt rows) = set rows"
  by (simp add: sort_index_def rearranges_def)

lemma set_polarity_changed: "set (polarity_changed rows) \<subseteq> set rows"
  by (auto simp: polarity_changed_def dest: set_zip_leftD)

lemma in_dropna: "(i, x, p) \<in> set (dropna rows) \<longleftrightarrow> (i, Some x, p) \<in> set rows"
  by (force simp: dropna_def List.map_filter_def)

lemma wave_frame_values:
  assumes "rearranges srt" and "r \<in> set (wave_frame srt mx mn)"
  shows "Some (waves r) \<in> set mx \<or> Some (waves r) \<in> set mn"
proof -
  obtain i x p where r: "r = (i, x, p)" by (cases r)
  let ?a = "drop_duplicates (with_polarity 1 mx)" and ?b = "drop_duplicates (with_polarity (- 1) mn)"
  from assms(2) r have "(i, Some x, p) \<in> set (polarity_changed (sort_index srt (?a @ ?b)))"
    by (simp add: wave_frame_def in_dropna)
  then have "(i, Some x, p) \<in> set (?a @ ?b)"
    using set_polarity_changed set_sort_index [OF assms(1)] by blast
  then have "(i, Some x, p) \<in> set (with_polarity 1 mx) \<or> (i, Some x, p) \<in> set (with_polarity (- 1) mn)"
    using set_drop_duplicates by fastforce
  then show ?thesis using r with_polarity_values by fastforce
qed

lemma set_loc: "set (loc rows labels) \<subseteq> set rows"
  by (auto simp: loc_def)

lemma select_levels_values:
  assumes "select_levels ward wvs k = Inr res"
  shows "set res \<subseteq> waves ` set wvs"
proof -
  from assms obtain labels where "res = map waves (loc wvs (groupby_idxmax (zip wvs labels)))"
    by (auto simp: select_levels_def and_then_Inr Let_def split: if_splits)
  then show ?thesis using set_loc [of wvs "groupby_idxmax (zip wvs labels)"] by auto
qed


lemma reset_index_columns:
  assumes "reset_index df = Inr df1"
  obtains name where "columns df1 = (name, index_values (index df)) # columns df"
    and "name \<notin> set (map fst (columns df))"
  using assms by (auto simp: reset_index_def Let_def split: if_splits)

lemma getattr_after_reset:
  assumes "reset_index df = Inr df1" and "getattr df nm = Inr c"
  shows "getattr df1 nm = Inr c"
proof -
  from assms(2) have c: "map_of (columns df) nm = Some c"
    by (auto simp: getattr_def split: option.splits)
  then have nm: "nm \<in> set (map fst (columns df))"
    by (force dest: map_of_SomeD)
  from assms(1) obtain name where "columns df1 = (name, index_values (index df)) # columns df"
    and "name \<notin> set (map fst (columns df))"
    by (rule reset_index_columns)
  with nm c show ?thesis by (auto simp: getattr_def)
qed

lemma getattr_before_reset:
  assumes "reset_index df = Inr df1" and "getattr df1 nm = Inr c" and "numeric_values c = Inr xs"
    and "nm \<noteq> ''index''" and "nm \<noteq> ''level_0''"
  shows "getattr df nm = Inr c"
proof (cases "index df")
  case (RangeIndex n)
  with assms show ?thesis
    by (auto simp: reset_index_def getattr_def Let_def split: if_splits option.splits)
next
  case (Index nmo ls)
  with assms show ?thesis
    by (cases nmo) (auto simp: reset_index_def getattr_def Let_def split: if_splits option.splits)
qed

lemma max_waves_temp_values:
  assumes "max_waves_temp df w = Inr mx" and "Some v \<in> set mx"
  shows "\<exists>c xs. getattr df ''High'' = Inr c \<and> numeric_values c = Inr xs \<and> Some v \<in> set xs"
  using assms rolling_values [of maximum v w, OF maximum_in]
  by (auto simp: max_waves_temp_def and_then_Inr)

lemma min_waves_temp_values:
  assumes "min_waves_temp df w = Inr mn" and "Some v \<in> set mn"
  shows "\<exists>c xs. getattr df ''Low'' = Inr c \<and> numeric_values c = Inr xs \<and> Some v \<in> set xs"
  using assms rolling_values [of minimum v w, OF minimum_in]
  by (auto simp: min_waves_temp_def and_then_Inr)

lemma call_returns:
  "fst (calculate_support_resistance srt ward df w k) = Inr res \<longleftrightarrow>
     (\<exists>df1. reset_index df = Inr df1 \<and> levels srt ward df1 w k = Inr res)"
  by (auto simp: calculate_support_resistance_def Let_def split: sum.splits)

lemma levels_returns:
  "levels srt ward df1 w k = Inr res \<longleftrightarrow>
     (\<exists>mx mn. max_waves_temp df1 w = Inr mx \<and> min_waves_temp df1 w = Inr mn
        \<and> select_levels ward (wave_frame srt mx mn) k = Inr res)"
  by (auto simp: levels_def wave_series_def and_then_Inr)

lemma rearranges_stable_sort: "rearranges stable_sort"
  by (simp add: rearranges_def stable_sort_def)

subsection \<open>Which rows the deduplication of lines 89 and 90 keeps\<close>

lemma drop_seen_positions:
  "drop_seen seen rows =
     map (nth rows) (filter (\<lambda>i. waves (rows ! i) \<notin> set seen \<union> waves ` set (take i rows)) [0..<length rows])"
proof (induction rows arbitrary: seen)
  case Nil
  show ?case by simp
next
  case (Cons r rs)
  have upt: "[0..<length (r # rs)] = 0 # map Suc [0..<length rs]"
    by (simp add: upt_conv_Cons map_Suc_upt del: upt_Suc)
  show ?case
  proof (cases "waves r \<in> set seen")
    case True
    then have "(v \<notin> set seen \<and> v \<noteq> waves r \<and> Q) = (v \<notin> set seen \<and> Q)" for v Q by auto
    with True show ?thesis
      unfolding upt by (simp add: Cons.IH filter_map comp_def)
  next
    case False
    then show ?thesis
      unfolding upt by (simp add: Cons.IH filter_map comp_def conj_commute conj_left_commute)
  qed
qed

lemma with_polarity_nth: "i < length ws \<Longrightarrow> with_polarity p ws ! i = (i, ws ! i, p)"
  by (simp add: with_polarity_def nth_enumerate_eq)

lemma length_with_polarity: "length (with_polarity p ws) = length ws"
  by (simp add: with_polarity_def)

lemma waves_with_polarity: "map waves (with_polarity p ws) = ws"
  by (rule nth_equalityI) (simp_all add: length_with_polarity with_polarity_nth)

lemma drop_duplicates_positions:
  "drop_duplicates (with_polarity p ws) =
     map (\<lambda>i. (i, ws ! i, p)) (filter (\<lambda>i. ws ! i \<notin> set (take i ws)) [0..<length ws])"
proof -
  have tk: "waves ` set (take i (with_polarity p ws)) = set (take i ws)" for i
    using waves_with_polarity [of p ws] by (metis set_map take_map)
  have "drop_duplicates (with_polarity p ws) =
          map (nth (with_polarity p ws))
              (filter (\<lambda>i. waves (with_polarity p ws ! i) \<notin> set (take i ws)) [0..<length ws])"
    by (simp add: drop_duplicates_def drop_seen_positions length_with_polarity tk)
  also have "filter (\<lambda>i. waves (with_polarity p ws ! i) \<notin> set (take i ws)) [0..<length ws] =
             filter (\<lambda>i. ws ! i \<notin> set (take i ws)) [0..<length ws]"
    by (rule filter_cong) (simp_all add: with_polarity_nth)
  also have "map (nth (with_polarity p ws)) (filter (\<lambda>i. ws ! i \<notin> set (take i ws)) [0..<length ws]) =
             map (\<lambda>i. (i, ws ! i, p)) (filter (\<lambda>i. ws ! i \<notin> set (take i ws)) [0..<length ws])"
    by (rule map_cong) (simp_all add: with_polarity_nth)
  finally show ?thesis .
qed

subsection \<open>Rolling extrema of non-decreasing columns\<close>

lemma fold_max_sorted: "sorted (a # ys) \<Longrightarrow> fold max ys a = last (a # ys)"
  by (induction ys arbitrary: a) (auto simp: max_def)

lemma fold_min_sorted: "sorted (a # ys) \<Longrightarrow> fold min ys a = a"
  by (induction ys arbitrary: a) (auto simp: min_def)

lemma maximum_sorted: "sorted ys \<Longrightarrow> ys \<noteq> [] \<Longrightarrow> maximum ys = last ys"
  using fold_max_sorted [of "hd ys" "tl ys"] by (cases ys) (simp_all add: maximum_def)

lemma minimum_sorted: "sorted ys \<Longrightarrow> ys \<noteq> [] \<Longrightarrow> minimum ys = hd ys"
  using fold_min_sorted [of "hd ys" "tl ys"] by (cases ys) (simp_all add: minimum_def)

lemma window_map: "window w (map f xs) i = map f (window w xs i)"
  by (simp add: window_def take_map drop_map)

lemma length_window: "i < length xs \<Longrightarrow> w \<le> i + 1 \<Longrightarrow> length (window w xs i) = w"
  by (auto simp: window_def)

lemma sorted_window: "sorted xs \<Longrightarrow> sorted (window w xs i)"
  by (simp add: window_def sorted_wrt_take sorted_wrt_drop)

lemma last_window:
  assumes "i < length xs" and "w \<le> i + 1" and "0 < w"
  shows "last (window w xs i) = xs ! i"
proof -
  have len: "length (window w xs i) = w" using length_window [OF assms(1,2)] .
  then have "window w xs i \<noteq> []" using assms(3) by auto
  then have "last (window w xs i) = window w xs i ! (w - 1)"
    by (simp add: last_conv_nth len)
  also have "\<dots> = xs ! (i + 1 - w + (w - 1))"
    using assms by (simp add: window_def)
  also have "i + 1 - w + (w - 1) = i" using assms by simp
  finally show ?thesis .
qed

lemma hd_window:
  assumes "i < length xs" and "w \<le> i + 1" and "0 < w"
  shows "hd (window w xs i) = xs ! (i + 1 - w)"
proof -
  have len: "length (window w xs i) = w" using length_window [OF assms(1,2)] .
  then have "window w xs i \<noteq> []" using assms(3) by auto
  then have "hd (window w xs i) = window w xs i ! 0"
    by (simp add: hd_conv_nth)
  also have "\<dots> = xs ! (i + 1 - w)"
    using assms by (simp add: window_def)
  finally show ?thesis .
qed

lemma rolling_maximum_sorted:
  assumes "sorted hv"
  shows "rolling maximum w (map Some hv) =
           map (\<lambda>i. if i + 1 < w \<or> w = 0 then None else Some (hv ! i)) [0..<length hv]"
proof -
  have "(if i + 1 < w \<or> window w (map Some hv) i = [] \<or> None \<in> set (window w (map Some hv) i) then None
         else Some (maximum (map the (window w (map Some hv) i)))) =
        (if i + 1 < w \<or> w = 0 then None else Some (hv ! i))" if "i < length hv" for i
  proof (cases "i + 1 < w \<or> w = 0")
    case True
    then show ?thesis by (auto simp: window_def)
  next
    case False
    then have w: "w \<le> i + 1" "0 < w" by auto
    have len: "length (window w hv i) = w" using length_window [OF that w(1)] .
    then have ne: "window w hv i \<noteq> []" using w(2) by auto
    have "maximum (window w hv i) = hv ! i"
      using maximum_sorted [OF sorted_window [OF assms] ne] last_window [OF that w] by simp
    with False ne show ?thesis
      by (auto simp: window_map comp_def)
  qed
  then show ?thesis by (simp add: rolling_def)
qed

lemma rolling_minimum_sorted:
  assumes "sorted lv"
  shows "rolling minimum w (map Some lv) =
           map (\<lambda>i. if i + 1 < w \<or> w = 0 then None else Some (lv ! (i + 1 - w))) [0..<length lv]"
proof -
  have "(if i + 1 < w \<or> window w (map Some lv) i = [] \<or> None \<in> set (window w (map Some lv) i) then None
         else Some (minimum (map the (window w (map Some lv) i)))) =
        (if i + 1 < w \<or> w = 0 then None else Some (lv ! (i + 1 - w)))" if "i < length lv" for i
  proof (cases "i + 1 < w \<or> w = 0")
    case True
    then show ?thesis by (auto simp: window_def)
  next
    case False
    then have w: "w \<le> i + 1" "0 < w" by auto
    have len: "length (window w lv i) = w" using length_window [OF that w(1)] .
    then have ne: "window w lv i \<noteq> []" using w(2) by auto
    have "minimum (window w lv i) = lv ! (i + 1 - w)"
      using minimum_sorted [OF sorted_window [OF assms] ne] hd_window [OF that w] by simp
    with False ne show ?thesis
      by (auto simp: window_map comp_def)
  qed
  then show ?thesis by (simp add: rolling_def)
qed

lemma non_decreasing_by_position:
  assumes "\<And>i j. i \<le> j \<Longrightarrow> j < n \<Longrightarrow> \<not> P i \<Longrightarrow> f i \<le> f j"
  shows "non_decreasing (map (\<lambda>i. if P i then None else Some (f i)) [0..<n])"
proof -
  have "List.map_filter (\<lambda>v. v) (map (\<lambda>i. if P i then None else Some (f i)) [0..<n]) =
        map f (filter (\<lambda>i. \<not> P i) [0..<n])"
    by (induction n) (simp_all add: List.map_filter_def)
  moreover have "sorted_wrt (\<lambda>i j. f i \<le> f j) (filter (\<lambda>i. \<not> P i) [0..<n])"
  proof (rule sorted_wrt_mono_rel [rotated])
    show "sorted_wrt (<) (filter (\<lambda>i. \<not> P i) [0..<n])"
      by (rule sorted_wrt_filter) simp
    show "f i \<le> f j" if "i \<in> set (filter (\<lambda>i. \<not> P i) [0..<n])"
      "j \<in> set (filter (\<lambda>i. \<not> P i) [0..<n])" "i < j" for i j
      using that assms [of i j] by simp
  qed
  ultimately show ?thesis
    by (simp add: non_decreasing_def sorted_wrt_map)
qed

subsection \<open>Levels selected from the clusters, and calls that cannot cluster\<close>





lemma rolling_short: "length xs < w \<Longrightarrow> Some v \<notin> set (rolling agg w xs)"
  by (auto simp: rolling_def)

lemma length_numeric_values: "numeric_values c = Inr xs \<Longrightarrow> length xs = column_len c"
  by (cases c) auto

lemma well_formed_column:
  assumes "well_formed df" and "getattr df nm = Inr c"
  shows "column_len c = len df"
proof -
  from assms(2) have "(nm, c) \<in> set (columns df)"
    by (auto simp: getattr_def split: option.splits dest: map_of_SomeD)
  with assms(1) show ?thesis by (auto simp: well_formed_def list_all_iff)
qed

subsection \<open>The wave frame of a flat market\<close>

lemma rolling_flat_nth:
  assumes "agg = maximum \<or> agg = minimum" and "1 \<le> w" and "i < n"
  shows "rolling agg w (replicate n (Some c)) ! i = (if i + 1 < w then None else Some c)"
proof -
  have s: "sorted (replicate n c)" by (simp add: sorted_replicate)
  have m: "rolling agg w (replicate n (Some c)) = rolling agg w (map Some (replicate n c))" by simp
  from assms(1) show ?thesis
  proof
    assume "agg = maximum"
    then have "rolling agg w (replicate n (Some c)) =
        map (\<lambda>i. if i + 1 < w \<or> w = 0 then None else Some (replicate n c ! i)) [0..<length (replicate n c)]"
      unfolding m using rolling_maximum_sorted [OF s] by simp
    then show ?thesis using assms(2,3) by simp
  next
    assume "agg = minimum"
    then have "rolling agg w (replicate n (Some c)) =
        map (\<lambda>i. if i + 1 < w \<or> w = 0 then None else Some (replicate n c ! (i + 1 - w))) [0..<length (replicate n c)]"
      unfolding m using rolling_minimum_sorted [OF s] by simp
    then show ?thesis using assms(2,3) by simp
  qed
qed

lemma length_rolling: "length (rolling agg w xs) = length xs"
  by (simp add: rolling_def)

lemma flat_kept_positions:
  assumes "1 \<le> w" and "w \<le> length ws"
    and f: "\<And>i. i < length ws \<Longrightarrow> ws ! i = (if i + 1 < w then None else Some c)"
  shows "filter (\<lambda>i. ws ! i \<notin> set (take i ws)) [0..<length ws] = (if w = 1 then [0] else [0, w - 1])"
proof (rule sorted_distinct_set_unique)
  show "sorted (filter (\<lambda>i. ws ! i \<notin> set (take i ws)) [0..<length ws])"
    by (rule sorted_wrt_filter) simp
  show "distinct (filter (\<lambda>i. ws ! i \<notin> set (take i ws)) [0..<length ws])"
    by simp
  show "sorted (if w = 1 then [0] else [0, w - 1])" by simp
  show "distinct (if w = 1 then [0] else [0, w - 1])" using assms(1) by auto
  have key: "(ws ! i \<notin> set (take i ws)) \<longleftrightarrow> (i = 0 \<or> i = w - 1)" if i: "i < length ws" for i
  proof -
    have tk: "set (take i ws) = nth ws ` {0..<i}"
      using i by (simp add: nth_image)
    have "ws ! i \<in> nth ws ` {0..<i} \<longleftrightarrow> \<not> (i = 0 \<or> i = w - 1)"
    proof
      assume "ws ! i \<in> nth ws ` {0..<i}"
      then obtain j where j: "j < i" "ws ! j = ws ! i" by auto
      then have "j < length ws" using i by simp
      with j i show "\<not> (i = 0 \<or> i = w - 1)"
        using assms(1) f [of i] f [of j] by (auto split: if_splits)
    next
      assume ni: "\<not> (i = 0 \<or> i = w - 1)"
      show "ws ! i \<in> nth ws ` {0..<i}"
      proof (cases "i + 1 < w")
        case True
        from i have "0 < length ws" by (cases ws) simp_all
        with True ni i have "ws ! 0 = ws ! i" "0 < i" using f [of i] f [of 0] by auto
        then show ?thesis by (metis atLeastLessThan_iff imageI zero_le)
      next
        case False
        with ni assms(1) i have "ws ! (w - 1) = ws ! i" "w - 1 < i"
          using f [of i] f [of "w - 1"] by auto
        then show ?thesis by (metis atLeastLessThan_iff imageI zero_le)
      qed
    qed
    with tk show ?thesis by simp
  qed
  have "set (filter (\<lambda>i. ws ! i \<notin> set (take i ws)) [0..<length ws]) = {i. i < length ws \<and> (i = 0 \<or> i = w - 1)}"
    using key by auto
  also have "\<dots> = set (if w = 1 then [0] else [0, w - 1])"
    using assms(1,2) by auto
  finally show "set (filter (\<lambda>i. ws ! i \<notin> set (take i ws)) [0..<length ws]) =
        set (if w = 1 then [0] else [0, w - 1])" .
qed

lemma flat_drop_duplicates:
  assumes "agg = maximum \<or> agg = minimum" and "1 \<le> w" and "w \<le> n"
  shows "drop_duplicates (with_polarity p (rolling agg w (replicate n (Some c)))) =
           (if w = 1 then [(0, Some c, p)] else [(0, None, p), (w - 1, Some c, p)])"
proof -
  let ?ws = "rolling agg w (replicate n (Some c))"
  have len: "length ?ws = n" by (simp add: length_rolling)
  have nth: "?ws ! i = (if i + 1 < w then None else Some c)" if "i < length ?ws" for i
    using rolling_flat_nth [OF assms(1,2), of i n c] that len by simp
  have "filter (\<lambda>i. ?ws ! i \<notin> set (take i ?ws)) [0..<length ?ws] = (if w = 1 then [0] else [0, w - 1])"
    using assms(2,3) nth by (intro flat_kept_positions) (simp_all add: len)
  then have "drop_duplicates (with_polarity p ?ws) =
               map (\<lambda>i. (i, ?ws ! i, p)) (if w = 1 then [0] else [0, w - 1])"
    unfolding drop_duplicates_positions by simp
  also have "\<dots> = (if w = 1 then [(0, Some c, p)] else [(0, None, p), (w - 1, Some c, p)])"
    using assms(2,3) nth [of 0] nth [of "w - 1"] len by auto
  finally show ?thesis .
qed

lemma flat_wave_frame:
  fixes c :: "'a::linordered_idom"
  assumes "1 \<le> w" and "w \<le> n"
  shows "wave_frame stable_sort (rolling maximum w (replicate n (Some c)))
           (rolling minimum w (replicate n (Some c))) = [(w - 1, c, 1), (w - 1, c, - 1)]"
proof (cases "w = 1")
  case True
  then show ?thesis
    using assms
    by (simp add: wave_frame_def flat_drop_duplicates sort_index_def
        polarity_changed_def shift_def dropna_def List.map_filter_def Let_def)
next
  case False
  with assms have "0 < w - 1" by simp
  with False show ?thesis
    using assms
    by (simp add: wave_frame_def flat_drop_duplicates sort_index_def stable_sort_def
        polarity_changed_def shift_def dropna_def List.map_filter_def Let_def)
qed

lemma flat_select_levels:
  fixes c :: "'a::linordered_idom"
  assumes "ward [(c, 1), (c, 1)] 1 = [0, 0]"
  shows "select_levels ward [(i, c, 1), (i, c, - 1)] 1 = Inr [c, c]"
  using assms
  by (simp add: select_levels_def fit_predict_def and_then_def groupby_idxmax_def group_def
      idxmax_def maximum_def loc_def Let_def)

subsection \<open>Calls in which the order of sorting plays no part\<close>

text \<open>
  When the labels of the concatenated frame are in order already, line 92 returns the
  rows as they are. This is so on \<open>flat_bars\<close> and on \<open>band_bars\<close> with a window of one
  bar, where lines 89 and 90 leave a single row, with label 0, in each polarity series.
\<close>

lemma any_tie_order:
  assumes "reset_index df = Inr df1"
    and "max_waves_temp df1 w = Inr mx" and "min_waves_temp df1 w = Inr mn"
    and "sorted (map label (drop_duplicates (with_polarity 1 mx) @ drop_duplicates (with_polarity (- 1) mn)))"
  shows "calculate_support_resistance srt ward df w k =
         calculate_support_resistance stable_sort ward df w k"
proof -
  have "wave_frame srt mx mn = wave_frame stable_sort mx mn"
    using assms(4) by (simp add: wave_frame_def sort_index_def Let_def)
  then have "levels srt ward df1 w k = levels stable_sort ward df1 w k"
    using assms(2,3) by (simp add: levels_def wave_series_def and_then_def)
  then show ?thesis
    using assms(1) by (simp add: calculate_support_resistance_def)
qed

lemma flat_bars_reset:
  "reset_index flat_bars =
     Inr \<lparr>index = RangeIndex 5, columns = (''Date'', Object dates) # columns flat_bars\<rparr>"
  by code_simp

lemma flat_bars_any_tie_order:
  "calculate_support_resistance srt ward flat_bars 1 k =
   calculate_support_resistance stable_sort ward flat_bars 1 k"
proof (rule any_tie_order [OF flat_bars_reset])
  show "max_waves_temp \<lparr>index = RangeIndex 5, columns = (''Date'', Object dates) # columns flat_bars\<rparr> 1 =
          Inr [Some 100, Some 100, Some 100, Some 100, Some 100]"
    by code_simp
  show "min_waves_temp \<lparr>index = RangeIndex 5, columns = (''Date'', Object dates) # columns flat_bars\<rparr> 1 =
          Inr [Some 100, Some 100, Some 100, Some 100, Some 100]"
    by code_simp
  show "sorted (map label (drop_duplicates (with_polarity 1 [Some 100, Some 100, Some 100, Some 100, Some (100::real)]) @
                           drop_duplicates (with_polarity (- 1) [Some 100, Some 100, Some 100, Some 100, Some (100::real)])))"
    by code_simp
qed

lemma band_bars_reset:
  "reset_index band_bars =
     Inr \<lparr>index = RangeIndex 5, columns = (''Date'', Object dates) # columns band_bars\<rparr>"
  by code_simp

lemma band_bars_any_tie_order:
  "calculate_support_resistance srt ward band_bars 1 k =
   calculate_support_resistance stable_sort ward band_bars 1 k"
proof (rule any_tie_order [OF band_bars_reset])
  show "max_waves_temp \<lparr>index = RangeIndex 5, columns = (''Date'', Object dates) # columns band_bars\<rparr> 1 =
          Inr [Some 10, Some 10, Some 10, Some 10, Some 10]"
    by code_simp
  show "min_waves_temp \<lparr>index = RangeIndex 5, columns = (''Date'', Object dates) # columns band_bars\<rparr> 1 =
          Inr [Some 9, Some 9, Some 9, Some 9, Some 9]"
    by code_simp
  show "sorted (map label (drop_duplicates (with_polarity 1 [Some 10, Some 10, Some 10, Some 10, Some (10::real)]) @
                           drop_duplicates (with_polarity (- 1) [Some 9, Some 9, Some 9, Some 9, Some (9::real)])))"
    by code_simp
qed

section \<open>The claims\<close>

subsection \<open>Claim C1\<close>

text \<open>
  Claim C1 (the returned levels are pairwise distinct: duplicates among the per-cluster
  maxima are removed, the first occurrence kept). On the flat market, with a window of
  one bar and one cluster, the function returns the level 100 twice: the rolling maximum
  and the rolling minimum of bar 0 both survive as wave rows with index label 0, line 101
  selects both rows through that label, and line 103 does not change the frame that
  line 105 reads. The labels of the concatenated frame are in order here, so the result
  is the same for every tie order \<open>srt\<close>, and one cluster leaves no choice of labels.
\<close>

theorem C1_levels_repeat_a_value:
  "fst (calculate_support_resistance srt single_cluster flat_bars 1 1) = Inr [100, 100]
   \<and> \<not> distinct [100, 100 :: real]"
proof -
  have "fst (calculate_support_resistance stable_sort single_cluster flat_bars 1 1) = Inr [100, 100]"
    by code_simp
  then show ?thesis
    unfolding flat_bars_any_tie_order [of srt single_cluster 1] by simp
qed

subsection \<open>Claim C2\<close>

text \<open>
  Claim C2: before the two polarity series are merged, the deduplication removes only
  consecutive duplicates within each polarity series; an equal value that recurs at a
  non-adjacent position is retained as a separate wave point. The code does otherwise:
  \<^verbatim>\<open>drop_duplicates\<close> drops every later occurrence of a value. On \<open>trend_bars\<close> with
  a window of two bars the rolling maximum 15 of bar 1 recurs at bar 4, after 13 and 14;
  the row of bar 4 is dropped, where a deduplication of consecutive duplicates keeps it.
\<close>

theorem C2_recurring_value_dropped:
  "max_waves_temp trend_bars 2 = Inr [None, Some 15, Some 13, Some 14, Some 15]
   \<and> drop_duplicates (with_polarity 1 [None, Some 15, Some 13, Some 14, Some (15::real)]) =
       [(0, None, 1), (1, Some 15, 1), (2, Some 13, 1), (3, Some 14, 1)]
   \<and> drop_consecutive_duplicates (with_polarity 1 [None, Some 15, Some 13, Some 14, Some (15::real)]) =
       [(0, None, 1), (1, Some 15, 1), (2, Some 13, 1), (3, Some 14, 1), (4, Some 15, 1)]"
  by code_simp

text \<open>
  Claim C2 as amended: within each single-polarity series, independently of the other,
  the deduplication keeps the row of position \<open>i\<close> exactly when its value occurs at no
  earlier position of the series (adjacent or not). So a plateau of equal adjacent
  values collapses to its first row, and a value that recurs later is dropped as well.
\<close>

theorem C2_first_occurrence_kept:
  "drop_duplicates (with_polarity p ws) =
     map (\<lambda>i. (i, ws ! i, p)) (filter (\<lambda>i. ws ! i \<notin> set (take i ws)) [0..<length ws])"
  by (rule drop_duplicates_positions)

subsection \<open>Claim C3\<close>

text \<open>
  Claim C3: for every successful invocation, every returned level equals some
  \<open>high[i]\<close> or some \<open>low[i]\<close> of the input bars; no level is synthesized or
  interpolated. It holds whatever the clustering labels are and in whatever order
  \<^verbatim>\<open>sort_index\<close> leaves rows of equal label (\<open>rearranges srt\<close>: the sort only
  rearranges the rows): a returned level is a value of the High column or of the Low
  column of the caller's frame.
\<close>

theorem C3_levels_are_observed_prices:
  assumes "rearranges srt"
    and "fst (calculate_support_resistance srt ward df w k) = Inr res"
    and "v \<in> set res"
  shows "\<exists>c xs. (getattr df ''High'' = Inr c \<or> getattr df ''Low'' = Inr c)
            \<and> numeric_values c = Inr xs \<and> Some v \<in> set xs"
proof -
  from assms(2) obtain df1 mx mn where df1: "reset_index df = Inr df1"
    and mx: "max_waves_temp df1 w = Inr mx" and mn: "min_waves_temp df1 w = Inr mn"
    and sel: "select_levels ward (wave_frame srt mx mn) k = Inr res"
    unfolding call_returns levels_returns by blast
  from sel assms(3) obtain r where "r \<in> set (wave_frame srt mx mn)" "v = waves r"
    using select_levels_values by blast
  then consider "Some v \<in> set mx" | "Some v \<in> set mn"
    using wave_frame_values [OF assms(1)] by blast
  then show ?thesis
  proof cases
    case 1
    then obtain c xs where c: "getattr df1 ''High'' = Inr c" "numeric_values c = Inr xs" "Some v \<in> set xs"
      using max_waves_temp_values [OF mx] by blast
    then have "getattr df ''High'' = Inr c"
      using getattr_before_reset [OF df1] by simp
    with c show ?thesis by blast
  next
    case 2
    then obtain c xs where c: "getattr df1 ''Low'' = Inr c" "numeric_values c = Inr xs" "Some v \<in> set xs"
      using min_waves_temp_values [OF mn] by blast
    then have "getattr df ''Low'' = Inr c"
      using getattr_before_reset [OF df1] by simp
    with c show ?thesis by blast
  qed
qed


theorem C3_levels_are_observed_prices_witness:
  "fst (calculate_support_resistance stable_sort single_cluster trend_bars 2 1) = Inr [15, 9]
   \<and> (\<exists>c xs. (getattr trend_bars ''High'' = Inr c \<or> getattr trend_bars ''Low'' = Inr c)
            \<and> numeric_values c = Inr xs \<and> Some (15::real) \<in> set xs)"
proof -
  have r: "fst (calculate_support_resistance stable_sort single_cluster trend_bars 2 1) = Inr [15, 9]"
    by code_simp
  show ?thesis
    using C3_levels_are_observed_prices [OF rearranges_stable_sort r, of 15] r by simp
qed

subsection \<open>Claim C4\<close>

text \<open>
  Claim C4: if \<open>len(bars) < windowLength\<close>, or the deduplicated wave series has fewer
  points than \<open>numClusters\<close>, the core fails fast with a typed error of the specified
  kind (\<open>InsufficientHistory\<close>, \<open>InvalidParameter\<close>), never with an untyped crash and
  never by returning a truncated level list. The function has no check of its own and
  no error kinds: five bars with a window of six, and two wave points with three
  clusters, both end in the ValueError that the clustering library raises. (On this
  frame the order of sorting plays no part: with the window of six every rolling value
  is NaN, with the window of one the labels are in order already.)
\<close>

theorem C4_library_error_not_a_typed_one:
  "len band_bars < 6
   \<and> fst (calculate_support_resistance stable_sort single_cluster band_bars 6 1) = Inl ValueError
   \<and> and_then (reset_index band_bars) (\<lambda>df1. wave_series stable_sort df1 1) =
         Inr [(0, 10, 1), (0, 9, - 1)]
   \<and> fst (calculate_support_resistance stable_sort single_cluster band_bars 1 3) = Inl ValueError
   \<and> Inl ValueError \<notin> {Inl InsufficientHistory, Inl InvalidParameter :: error + real list}"
  by code_simp

text \<open>
  Claim C4 as amended: if the frame has fewer bars than the window is long, or the
  deduplicated wave series has fewer points than \<open>num_clusters\<close>, the call returns no
  level list, truncated or not: it ends in the ValueError raised by the input
  validation of the clustering library (fewer than two samples, or fewer samples than
  clusters). This holds for frames on which lines 82 to 93 run (the index can be reset,
  High and Low are numeric columns), for every tie order of \<^verbatim>\<open>sort_index\<close> and every
  labelling.
\<close>

theorem C4_too_few_bars_or_waves_raise_ValueError:
  assumes "rearranges srt"
    and "well_formed df"
    and "reset_index df = Inr df1"
    and "wave_series srt df1 w = Inr wvs"
    and "len df < w \<or> length wvs < k"
  shows "fst (calculate_support_resistance srt ward df w k) = Inl ValueError"
proof -
  from assms(4) obtain mx mn where mx: "max_waves_temp df1 w = Inr mx"
    and mn: "min_waves_temp df1 w = Inr mn" and wvs: "wvs = wave_frame srt mx mn"
    by (auto simp: wave_series_def and_then_Inr)
  have short: "length wvs < 2 \<or> length wvs < k"
  proof (cases "len df < w")
    case True
    from mx obtain hc hs where hc: "getattr df1 ''High'' = Inr hc" "numeric_values hc = Inr hs"
      "mx = rolling maximum w hs"
      by (auto simp: max_waves_temp_def and_then_Inr)
    from mn obtain lc ls where lc: "getattr df1 ''Low'' = Inr lc" "numeric_values lc = Inr ls"
      "mn = rolling minimum w ls"
      by (auto simp: min_waves_temp_def and_then_Inr)
    have "getattr df ''High'' = Inr hc" using getattr_before_reset [OF assms(3) hc(1,2)] by simp
    then have "length hs < w"
      using True well_formed_column [OF assms(2)] length_numeric_values [OF hc(2)] by simp
    then have nomx: "Some v \<notin> set mx" for v unfolding hc(3) by (rule rolling_short)
    have "getattr df ''Low'' = Inr lc" using getattr_before_reset [OF assms(3) lc(1,2)] by simp
    then have "length ls < w"
      using True well_formed_column [OF assms(2)] length_numeric_values [OF lc(2)] by simp
    then have nomn: "Some v \<notin> set mn" for v unfolding lc(3) by (rule rolling_short)
    have "wvs = []"
    proof (cases wvs)
      case (Cons r rs)
      then have "r \<in> set (wave_frame srt mx mn)" using wvs by simp
      then show ?thesis using wave_frame_values [OF assms(1)] nomx nomn by blast
    qed simp
    then show ?thesis by simp
  next
    case False
    with assms(5) show ?thesis by simp
  qed
  then have "select_levels ward wvs k = Inl ValueError"
    by (auto simp: select_levels_def fit_predict_def and_then_def)
  with assms(4) have "levels srt ward df1 w k = Inl ValueError"
    by (simp add: levels_def and_then_def)
  with assms(3) show ?thesis
    by (simp add: calculate_support_resistance_def)
qed


theorem C4_too_few_bars_or_waves_raise_ValueError_witness:
  "len band_bars < 7
   \<and> fst (calculate_support_resistance stable_sort single_cluster band_bars 7 1) = Inl ValueError"
proof -
  have wf: "well_formed band_bars" by code_simp
  have i: "reset_index band_bars =
             Inr \<lparr>index = RangeIndex 5, columns = (''Date'', Object dates) # columns band_bars\<rparr>"
    by code_simp
  have ws: "wave_series stable_sort
              \<lparr>index = RangeIndex 5, columns = (''Date'', Object dates) # columns band_bars\<rparr> 7 = Inr []"
    by code_simp
  have n: "len band_bars < 7" by code_simp
  then have "len band_bars < 7 \<or> length ([] :: (nat \<times> real \<times> real) list) < 1" by simp
  then show ?thesis
    using C4_too_few_bars_or_waves_raise_ValueError [OF rearranges_stable_sort wf i ws, of 1 single_cluster] n
    by simp
qed

subsection \<open>Claim C5\<close>

text \<open>
  Claim C5: for every flat bar sequence (\<open>high[i] = low[i] = 100\<close>) and any window,
  deduplication collapses the wave candidates to a single wave point, and with one
  cluster the returned sequence is exactly \<open>[100]\<close>. On five flat bars with a window
  of one bar, lines 89 and 90 leave one row in each polarity series, line 93 keeps both
  (their polarities differ), so the wave series has two points; the call returns 100
  twice. (The labels are in order already, so the order of sorting plays no part.)
\<close>

theorem C5_flat_market_has_two_wave_points:
  "and_then (reset_index flat_bars) (\<lambda>df1. wave_series stable_sort df1 1) =
     Inr [(0, 100, 1), (0, 100, - 1)]
   \<and> fst (calculate_support_resistance stable_sort single_cluster flat_bars 1 1) = Inr [100, 100]
   \<and> [100, 100] \<noteq> [100 :: real]"
  by code_simp

text \<open>
  Claim C5 as amended: for every flat bar sequence (\<open>high[i] = low[i] = 100\<close> on each
  of \<open>n\<close> bars) and every window \<open>w\<close> with \<open>1 \<le> w \<le> n\<close>, the deduplication
  collapses the wave candidates to one wave point per polarity: the wave series has two
  points, both of value 100 and both at bar \<open>w - 1\<close>; with one cluster the call returns
  a sequence whose entries all equal 100. (For \<open>w > 1\<close> the two rows of a bar are
  taken in their order of arrival, maximum first, as a stable \<^verbatim>\<open>sort_index\<close> leaves
  them; the labelling is the one of a single cluster.)
\<close>

theorem C5_flat_market_gives_two_wave_points_and_the_level_100:
  fixes df :: "('a::linordered_idom) DataFrame"
  assumes "reset_index df = Inr df1"
    and "getattr df ''High'' = Inr (Float64 (replicate n (Some 100)))"
    and "getattr df ''Low'' = Inr (Float64 (replicate n (Some 100)))"
    and "1 \<le> w" and "w \<le> n"
    and "ward [(100, 1), (100, 1)] 1 = [0, 0]"
  shows "wave_series stable_sort df1 w = Inr [(w - 1, 100, 1), (w - 1, 100, - 1)]
         \<and> (\<exists>res. fst (calculate_support_resistance stable_sort ward df w 1) = Inr res
                \<and> set res = {100})"
proof -
  have h: "getattr df1 ''High'' = Inr (Float64 (replicate n (Some 100)))"
    using getattr_after_reset [OF assms(1,2)] .
  have l: "getattr df1 ''Low'' = Inr (Float64 (replicate n (Some 100)))"
    using getattr_after_reset [OF assms(1,3)] .
  have ws: "wave_series stable_sort df1 w = Inr [(w - 1, 100, 1), (w - 1, 100, - 1)]"
    using h l flat_wave_frame [OF assms(4,5), of "100::'a"]
    by (simp add: wave_series_def max_waves_temp_def min_waves_temp_def and_then_def)
  have "levels stable_sort ward df1 w 1 = Inr [100, 100]"
    using ws flat_select_levels [of ward 100, OF assms(6)] by (simp add: levels_def and_then_def)
  then have "fst (calculate_support_resistance stable_sort ward df w 1) = Inr [100, 100]"
    using assms(1) by (simp add: calculate_support_resistance_def)
  with ws show ?thesis by simp
qed


theorem C5_flat_market_gives_two_wave_points_and_the_level_100_witness:
  "wave_series stable_sort
     \<lparr>index = RangeIndex 5, columns = (''Date'', Object dates) # columns flat_bars\<rparr> 3 =
     Inr [(2, 100, 1), (2, 100, - 1)]
   \<and> (\<exists>res. fst (calculate_support_resistance stable_sort single_cluster flat_bars 3 1) = Inr res
          \<and> set res = {100 :: real})"
proof -
  have i: "reset_index flat_bars =
             Inr \<lparr>index = RangeIndex 5, columns = (''Date'', Object dates) # columns flat_bars\<rparr>"
    by code_simp
  have h: "getattr flat_bars ''High'' = Inr (Float64 (replicate 5 (Some 100)))"
    by code_simp
  have l: "getattr flat_bars ''Low'' = Inr (Float64 (replicate 5 (Some 100)))"
    by code_simp
  have w: "(1::nat) \<le> 3" "(3::nat) \<le> 5" by simp_all
  have s: "single_cluster [(100 :: real, 1), (100, 1)] 1 = [0, 0]"
    by code_simp
  show ?thesis
    using C5_flat_market_gives_two_wave_points_and_the_level_100
            [of flat_bars _ 5 3 single_cluster, OF i h l w s]
    by simp
qed

subsection \<open>Claim C6\<close>

text \<open>
  Claim C6 (the number of returned levels is at most the number of clusters). On the
  frame \<open>band_bars\<close>, with a window of one bar and one cluster, the function returns two
  levels: the cluster maximum 10 and, with it, the rolling minimum 9 that carries the
  same index label (line 101 selects rows by index label, and after line 92 a label is
  carried by up to two rows). The result is the same for every tie order \<open>srt\<close>.
\<close>

theorem C6_more_levels_than_clusters:
  "fst (calculate_support_resistance srt single_cluster band_bars 1 1) = Inr [10, 9]
   \<and> length [10, 9 :: real] > 1"
proof -
  have "fst (calculate_support_resistance stable_sort single_cluster band_bars 1 1) = Inr [10, 9]"
    by code_simp
  then show ?thesis
    unfolding band_bars_any_tie_order [of srt single_cluster 1] by simp
qed

subsection \<open>Claim C7\<close>

text \<open>
  Claim C7 (after the call the caller's frame has the same index, the same columns and
  the same values as before). After a successful call the index is back (line 102), and
  the frame has one column more: the dates that line 82 moved out of the index into a
  column named \<^verbatim>\<open>Date\<close>. A second call on the frame, as the first call left it, raises
  ValueError at line 82, since the name \<^verbatim>\<open>Date\<close> is taken.
\<close>

theorem C7_frame_gains_a_column:
  "snd (calculate_support_resistance srt single_cluster flat_bars 1 1) =
     \<lparr>index = index flat_bars, columns = (''Date'', Object dates) # columns flat_bars\<rparr>
   \<and> snd (calculate_support_resistance srt single_cluster flat_bars 1 1) \<noteq> flat_bars
   \<and> fst (calculate_support_resistance srt single_cluster
             (snd (calculate_support_resistance srt single_cluster flat_bars 1 1)) 1 1) = Inl ValueError"
proof -
  have "snd (calculate_support_resistance stable_sort single_cluster flat_bars 1 1) =
          \<lparr>index = index flat_bars, columns = (''Date'', Object dates) # columns flat_bars\<rparr>
        \<and> snd (calculate_support_resistance stable_sort single_cluster flat_bars 1 1) \<noteq> flat_bars"
    by code_simp
  then have first: "snd (calculate_support_resistance srt single_cluster flat_bars 1 1) =
          \<lparr>index = index flat_bars, columns = (''Date'', Object dates) # columns flat_bars\<rparr>
        \<and> snd (calculate_support_resistance srt single_cluster flat_bars 1 1) \<noteq> flat_bars"
    unfolding flat_bars_any_tie_order [of srt single_cluster 1] .
  have "reset_index \<lparr>index = index flat_bars, columns = (''Date'', Object dates) # columns flat_bars\<rparr> =
          Inl ValueError"
    by code_simp
  then have "fst (calculate_support_resistance srt single_cluster
      \<lparr>index = index flat_bars, columns = (''Date'', Object dates) # columns flat_bars\<rparr> 1 1) = Inl ValueError"
    by (simp add: calculate_support_resistance_def)
  then have "fst (calculate_support_resistance srt single_cluster
      (snd (calculate_support_resistance srt single_cluster flat_bars 1 1)) 1 1) = Inl ValueError"
    using first by (simp only:)
  with first show ?thesis by blast
qed

subsection \<open>Claim C8\<close>

text \<open>
  Claim C8: for every bar sequence whose close values are strictly increasing, the
  rolling-max series and the rolling-min series are non-decreasing. Lines 84 and 85
  never read the Close column: on \<open>trend_bars\<close> the closes rise on every day, the high
  of the first day is not reached again before the last day, and the rolling maximum
  over two bars falls from 15 to 13.
\<close>

theorem C8_rising_closes_falling_maxima:
  "getattr trend_bars ''Close'' = Inr (Float64 (map Some [10, 11, 12, 13, 14]))
   \<and> sorted_wrt (<) [10, 11, 12, 13, 14 :: real]
   \<and> and_then (reset_index trend_bars) (\<lambda>df1. max_waves_temp df1 2) =
         Inr [None, Some 15, Some 13, Some 14, Some 15]
   \<and> \<not> non_decreasing [None, Some 15, Some 13, Some 14, Some (15::real)]"
  by code_simp

text \<open>
  Claim C8 as amended: for every bar sequence whose high values are non-decreasing and
  whose low values are non-decreasing, the rolling-max series and the rolling-min
  series (lines 84 and 85, for any window) are non-decreasing.
\<close>

theorem C8_rolling_series_of_rising_highs_and_lows:
  assumes "getattr df ''High'' = Inr (Float64 (map Some hv))" and "sorted hv"
    and "getattr df ''Low'' = Inr (Float64 (map Some lv))" and "sorted lv"
  shows "\<exists>mx mn. max_waves_temp df w = Inr mx \<and> min_waves_temp df w = Inr mn
           \<and> non_decreasing mx \<and> non_decreasing mn"
proof -
  have mx: "max_waves_temp df w = Inr (rolling maximum w (map Some hv))"
    using assms(1) by (simp add: max_waves_temp_def and_then_def)
  have mn: "min_waves_temp df w = Inr (rolling minimum w (map Some lv))"
    using assms(3) by (simp add: min_waves_temp_def and_then_def)
  have "non_decreasing (rolling maximum w (map Some hv))"
    unfolding rolling_maximum_sorted [OF assms(2)]
    by (rule non_decreasing_by_position) (simp add: sorted_nth_mono [OF assms(2)])
  moreover have "non_decreasing (rolling minimum w (map Some lv))"
    unfolding rolling_minimum_sorted [OF assms(4)]
    by (rule non_decreasing_by_position) (auto intro!: sorted_nth_mono [OF assms(4)])
  ultimately show ?thesis using mx mn by blast
qed


theorem C8_rolling_series_of_rising_highs_and_lows_witness:
  "sorted [11, 12, 13, 14, 15 :: real] \<and> sorted [9, 10, 11, 12, 13 :: real]
   \<and> (\<exists>mx mn. max_waves_temp rally_bars 2 = Inr mx \<and> min_waves_temp rally_bars 2 = Inr mn
          \<and> non_decreasing mx \<and> non_decreasing mn)"
proof -
  have h: "getattr rally_bars ''High'' = Inr (Float64 (map Some [11, 12, 13, 14, 15]))"
    by code_simp
  have l: "getattr rally_bars ''Low'' = Inr (Float64 (map Some [9, 10, 11, 12, 13]))"
    by code_simp
  have sh: "sorted [11, 12, 13, 14, 15 :: real]" by simp
  have sl: "sorted [9, 10, 11, 12, 13 :: real]" by simp
  show ?thesis
    using C8_rolling_series_of_rising_highs_and_lows [OF h sh l sl, of 2] sh sl by simp
qed

subsection \<open>Claim C9\<close>





subsection \<open>Claim C10\<close>




end
